theory Spec2Isabelle
  imports Main
begin

section \<open>JavaScript values used by the two forms\<close>

text \<open>
  A JavaScript string is a sequence of UTF-16 code units. A code unit is modelled as a
  natural number (0 .. 65535); every theorem below holds for all lists of naturals, so
  in particular for all strings the forms can hold.
\<close>

type_synonym code_unit = nat
type_synonym jsstring = "code_unit list"

text \<open>An ASCII literal as a JavaScript string.\<close>

definition js :: "string \<Rightarrow> jsstring" where
  "js s = map of_char s"

text \<open>
  ECMAScript \<open>WhiteSpace\<close> and \<open>LineTerminator\<close> code points: the ones that
  \<open>String.prototype.trim\<close> removes and that \<open>parseInt\<close> skips at the start.
\<close>

definition is_white_space :: "code_unit \<Rightarrow> bool" where
  "is_white_space c \<longleftrightarrow>
     c = 0x9 \<or> c = 0xA \<or> c = 0xB \<or> c = 0xC \<or> c = 0xD \<or> c = 0x20 \<or> c = 0xA0 \<or>
     c = 0x1680 \<or> (0x2000 \<le> c \<and> c \<le> 0x200A) \<or> c = 0x2028 \<or> c = 0x2029 \<or>
     c = 0x202F \<or> c = 0x205F \<or> c = 0x3000 \<or> c = 0xFEFF"

text \<open>\<open>s.trim()\<close>: white space removed at both ends.\<close>

definition trim :: "jsstring \<Rightarrow> jsstring" where
  "trim s = rev (dropWhile is_white_space (rev (dropWhile is_white_space s)))"

text \<open>
  The \<open>File\<close> objects handed over by a file input; the forms read \<open>name\<close> and
  \<open>size\<close> only. A \<open>File | null\<close> is a \<open>js_file option\<close>; an object is always truthy,
  so \<open>!file\<close> holds exactly for \<open>None\<close>.
\<close>

record js_file =
  file_name :: jsstring
  file_size :: nat

section \<open>SingleEntryForm (App.tsx)\<close>

record single_form =
  activity :: jsstring
  definition_text :: jsstring
  form_file :: "js_file option"
  single_selectedModel :: jsstring

text \<open>What one call of a handler does to the outside: an alert, or the callback.\<close>

datatype single_effect =
    SingleAlert string
  | SingleOnGenerate jsstring jsstring "js_file option" jsstring

definition single_initial :: single_form where
  "single_initial =
     \<lparr>activity = [], definition_text = [], form_file = None,
      single_selectedModel = js ''gpt-4.5''\<rparr>"

text \<open>
  \<open>handleFileChange\<close>: \<open>e.target.files\<close> is a \<open>FileList\<close> or \<open>null\<close>; the first
  file is stored when there is one.
\<close>

definition handleFileChange :: "js_file list option \<Rightarrow> single_form \<Rightarrow> single_form" where
  "handleFileChange files st =
     (case files of
        Some (f # _) \<Rightarrow> st\<lparr>form_file := Some f\<rparr>
      | _ \<Rightarrow> st)"

definition single_handleModelChange :: "jsstring \<Rightarrow> single_form \<Rightarrow> single_form" where
  "single_handleModelChange modelId st = st\<lparr>single_selectedModel := modelId\<rparr>"

text \<open>
  \<open>handleGenerate\<close> of SingleEntryForm: the list of effects of one call, in order.
  An empty string is falsy, so \<open>!activity.trim()\<close> is \<open>trim (activity st) = []\<close>.
\<close>

definition single_handleGenerate :: "single_form \<Rightarrow> single_effect list" where
  "single_handleGenerate st =
     (if trim (activity st) = [] then [SingleAlert ''Please enter an activity name'']
      else if trim (definition_text st) = [] then [SingleAlert ''Please enter a definition'']
      else if form_file st = None then [SingleAlert ''Please upload a PDF file'']
      else [SingleOnGenerate (activity st) (definition_text st) (form_file st)
              (single_selectedModel st)])"

fun is_single_alert :: "single_effect \<Rightarrow> bool" where
  "is_single_alert (SingleAlert _) = True"
| "is_single_alert (SingleOnGenerate _ _ _ _) = False"

fun is_single_call :: "single_effect \<Rightarrow> bool" where
  "is_single_call (SingleAlert _) = False"
| "is_single_call (SingleOnGenerate _ _ _ _) = True"

section \<open>Numbers and \<open>parseInt\<close>\<close>

text \<open>
  The Number values that \<open>parseInt\<close> can return: \<open>NaN\<close>, the two infinities, and a
  finite double whose value is an integer (\<open>Num\<close>). \<open>+0\<close> and \<open>-0\<close> are both
  \<open>Num 0\<close>: both are falsy, and the form never keeps either apart from the other.
\<close>

datatype number = NaN | PosInfinity | NegInfinity | Num int

text \<open>\<open>ToBoolean\<close> on a Number: \<open>NaN\<close> and zero are falsy, everything else truthy.\<close>

fun to_boolean :: "number \<Rightarrow> bool" where
  "to_boolean NaN = False"
| "to_boolean (Num n) = (n \<noteq> 0)"
| "to_boolean PosInfinity = True"
| "to_boolean NegInfinity = True"

text \<open>\<open>a || b\<close> on Numbers.\<close>

definition js_or :: "number \<Rightarrow> number \<Rightarrow> number" where
  "js_or a b = (if to_boolean a then a else b)"

text \<open>\<open>Number.isInteger\<close>.\<close>

fun is_integer :: "number \<Rightarrow> bool" where
  "is_integer (Num _) = True"
| "is_integer _ = False"

text \<open>
  Rounding a natural number to the nearest double, ties to even: numbers below \<open>2^53\<close>
  are exact; above, the \<open>excess_bits\<close> low bits are rounded away; a result of
  \<open>2^1024\<close> or more is no finite double (\<open>None\<close>, which \<open>parseInt\<close> returns as an
  infinity).
\<close>

fun excess_bits :: "nat \<Rightarrow> nat" where
  "excess_bits n = (if n < 2 ^ 53 then 0 else Suc (excess_bits (n div 2)))"

declare excess_bits.simps [simp del]

definition to_double :: "nat \<Rightarrow> nat option" where
  "to_double n =
     (let e = excess_bits n;
          q = n div 2 ^ e;
          r = n mod 2 ^ e;
          q' = (if 2 ^ e < 2 * r \<or> (2 * r = 2 ^ e \<and> odd q) then q + 1 else q)
      in if 2 ^ 1024 \<le> q' * 2 ^ e then None else Some (q' * 2 ^ e))"

text \<open>The value of a code unit as a digit of radix \<open>R\<close>, if it is one.\<close>

definition digit_value :: "nat \<Rightarrow> code_unit \<Rightarrow> nat option" where
  "digit_value R c =
     (let d = (if 0x30 \<le> c \<and> c \<le> 0x39 then Some (c - 0x30)
               else if 0x61 \<le> c \<and> c \<le> 0x7A then Some (c - 0x61 + 10)
               else if 0x41 \<le> c \<and> c \<le> 0x5A then Some (c - 0x41 + 10)
               else None)
      in case d of
           Some v \<Rightarrow> if v < R then Some v else None
         | None \<Rightarrow> None)"

text \<open>The longest prefix of radix-\<open>R\<close> digits, as digit values.\<close>

fun radix_digits :: "nat \<Rightarrow> jsstring \<Rightarrow> nat list" where
  "radix_digits R [] = []"
| "radix_digits R (c # cs) =
     (case digit_value R c of
        None \<Rightarrow> []
      | Some d \<Rightarrow> d # radix_digits R cs)"

definition math_int :: "nat \<Rightarrow> nat list \<Rightarrow> nat" where
  "math_int R ds = foldl (\<lambda>a d. a * R + d) 0 ds"

text \<open>A leading \<open>-\<close> or \<open>+\<close> is removed; the result says whether it was a \<open>-\<close>.\<close>

definition strip_sign :: "jsstring \<Rightarrow> bool \<times> jsstring" where
  "strip_sign S =
     (case S of
        [] \<Rightarrow> (False, [])
      | c # cs \<Rightarrow>
          if c = 0x2D then (True, cs)
          else if c = 0x2B then (False, cs)
          else (False, S))"

text \<open>With no radix argument, a leading \<open>0x\<close> or \<open>0X\<close> selects radix 16, else 10.\<close>

definition strip_prefix :: "jsstring \<Rightarrow> nat \<times> jsstring" where
  "strip_prefix S =
     (case S of
        c0 # c1 # cs \<Rightarrow>
          if c0 = 0x30 \<and> (c1 = 0x78 \<or> c1 = 0x58) then (16, cs) else (10, S)
      | _ \<Rightarrow> (10, S))"

text \<open>
  The scanning part of \<open>parseInt(s)\<close> with one argument (ECMAScript 19.2.5): leading
  white space is skipped, then a sign, then the radix prefix; what follows is read as
  digits up to the first code unit that is none. The result: whether the sign was
  \<open>-\<close>, the radix, and the digits.
\<close>

definition scan_int :: "jsstring \<Rightarrow> bool \<times> nat \<times> nat list" where
  "scan_int s =
     (let (neg, S1) = strip_sign (dropWhile is_white_space s);
          (R, S2) = strip_prefix S1
      in (neg, R, radix_digits R S2))"

text \<open>
  \<open>parseInt(s)\<close>: no digit at all gives \<open>NaN\<close>; otherwise the digits' value, rounded
  to a double, with the sign.
\<close>

definition parseInt :: "jsstring \<Rightarrow> number" where
  "parseInt s =
     (case scan_int s of
        (neg, R, Z) \<Rightarrow>
          if Z = [] then NaN
          else case to_double (math_int R Z) of
                 None \<Rightarrow> if neg then NegInfinity else PosInfinity
               | Some v \<Rightarrow> Num (if neg then - int v else int v))"

text \<open>
  Inputs whose digits are too large for a finite double: the value reaches
  \<open>2^1024 - 2^970\<close>, the midpoint between the largest double and \<open>2^1024\<close>.
\<close>

definition overflows :: "jsstring \<Rightarrow> bool" where
  "overflows s =
     (case scan_int s of
        (neg, R, Z) \<Rightarrow> Z \<noteq> [] \<and> 2 ^ 1024 \<le> math_int R Z + 2 ^ 970)"

text \<open>
  Inputs that start, after white space and a sign, with a decimal digit. All others
  (the empty string among them) are not numeric.
\<close>

definition numeric_start :: "jsstring \<Rightarrow> bool" where
  "numeric_start s =
     (case snd (strip_sign (dropWhile is_white_space s)) of
        [] \<Rightarrow> False
      | c # _ \<Rightarrow> 0x30 \<le> c \<and> c \<le> 0x39)"

section \<open>BulkGenerationForm (components/generation/BulkGenerationForm.tsx)\<close>

record bulk_form =
  excelFile :: "js_file option"
  pdfFile :: "js_file option"
  queryLimit :: number
  selectedModel :: jsstring

datatype bulk_effect =
    Alert string
  | OnGenerate js_file "js_file option" number jsstring

definition bulk_initial :: bulk_form where
  "bulk_initial =
     \<lparr>excelFile = None, pdfFile = None, queryLimit = Num 10,
      selectedModel = js ''gpt-4.5''\<rparr>"

definition handleExcelFileChange :: "js_file list option \<Rightarrow> bulk_form \<Rightarrow> bulk_form" where
  "handleExcelFileChange files st =
     (case files of
        Some (f # _) \<Rightarrow> st\<lparr>excelFile := Some f\<rparr>
      | _ \<Rightarrow> st)"

definition handlePdfFileChange :: "js_file list option \<Rightarrow> bulk_form \<Rightarrow> bulk_form" where
  "handlePdfFileChange files st =
     (case files of
        Some (f # _) \<Rightarrow> st\<lparr>pdfFile := Some f\<rparr>
      | _ \<Rightarrow> st)"

definition handleModelChange :: "jsstring \<Rightarrow> bulk_form \<Rightarrow> bulk_form" where
  "handleModelChange modelId st = st\<lparr>selectedModel := modelId\<rparr>"

text \<open>
  The \<open>onChange\<close> of the query limit input:
  \<open>setQueryLimit(parseInt(e.target.value) || 0)\<close>.
\<close>

definition queryLimit_onChange :: "jsstring \<Rightarrow> bulk_form \<Rightarrow> bulk_form" where
  "queryLimit_onChange v st = st\<lparr>queryLimit := js_or (parseInt v) (Num 0)\<rparr>"

text \<open>\<open>handleGenerate\<close> of BulkGenerationForm: the effects of one call, in order.\<close>

definition handleGenerate :: "bulk_form \<Rightarrow> bulk_effect list" where
  "handleGenerate st =
     (case excelFile st of
        None \<Rightarrow> [Alert ''Please upload an Excel file'']
      | Some x \<Rightarrow>
          (case pdfFile st of
             None \<Rightarrow> [Alert ''Please upload a PDF file'']
           | Some p \<Rightarrow> [OnGenerate x (Some p) (queryLimit st) (selectedModel st)]))"

fun is_call :: "bulk_effect \<Rightarrow> bool" where
  "is_call (Alert _) = False"
| "is_call (OnGenerate _ _ _ _) = True"

fun is_alert :: "bulk_effect \<Rightarrow> bool" where
  "is_alert (Alert _) = True"
| "is_alert (OnGenerate _ _ _ _) = False"

text \<open>
  The events the form reacts to, and the state after a sequence of them, starting from
  the \<open>useState\<close> defaults. Clicking the button changes no state.
\<close>

datatype bulk_event =
    ExcelFileChange "js_file list option"
  | PdfFileChange "js_file list option"
  | ModelChange jsstring
  | QueryLimitChange jsstring
  | GenerateClick

fun bulk_step :: "bulk_form \<Rightarrow> bulk_event \<Rightarrow> bulk_form" where
  "bulk_step st (ExcelFileChange files) = handleExcelFileChange files st"
| "bulk_step st (PdfFileChange files) = handlePdfFileChange files st"
| "bulk_step st (ModelChange m) = handleModelChange m st"
| "bulk_step st (QueryLimitChange v) = queryLimit_onChange v st"
| "bulk_step st GenerateClick = st"

definition bulk_run :: "bulk_event list \<Rightarrow> bulk_form" where
  "bulk_run evs = foldl bulk_step bulk_initial evs"

section \<open>Bulk generation (Generation Orchestrator, bulk mode)\<close>

text \<open>The error taxonomy of the pipeline.\<close>

datatype pipeline_error =
    ExtractionError
  | ChunkingError
  | IndexBuildError
  | EmbeddingMismatchError
  | NotFoundError
  | UnknownModelError
  | ModelError
  | BuildInProgressError

text \<open>The result of one attempted row: an answer, or the error captured for that row.\<close>

datatype 'a row_result = Answered 'a | RowFailed pipeline_error

fun is_answered :: "'a row_result \<Rightarrow> bool" where
  "is_answered (Answered _) = True"
| "is_answered (RowFailed _) = False"

text \<open>
  Modelled from the spec: the row selection of \<open>generateBulk\<close>, whose code (the
  generation service behind the form's \<open>onGenerate\<close> callback) is not among the
  sources. The spec: rows are processed "up to \<open>min(len(rows), queryLimit)\<close> rows (a
  \<open>queryLimit\<close> of 0 means unlimited -- process all rows)". The spec is silent on a
  negative limit; the minimum is then negative and no row is taken.
\<close>

definition rows_to_process :: "int \<Rightarrow> 'r list \<Rightarrow> 'r list" where
  "rows_to_process limit rows =
     (if limit = 0 then rows
      else take (nat (min (int (length rows)) limit)) rows)"

text \<open>
  Modelled from the spec: one row of a bulk run, answered by the single-mode path
  \<open>answer\<close> (an external collaborator here, hence a parameter). The spec: "Per-row
  failures are captured and attached to that row's result rather than aborting the
  batch".
\<close>

definition attempt_row :: "('r \<Rightarrow> pipeline_error + 'a) \<Rightarrow> 'r \<Rightarrow> 'a row_result" where
  "attempt_row answer row =
     (case answer row of
        Inl e \<Rightarrow> RowFailed e
      | Inr a \<Rightarrow> Answered a)"

text \<open>
  Modelled from the spec: \<open>generateBulk(documentId, rows, modelId, queryLimit)\<close>, whose
  code is not among the sources. The spec: "each row is independently retrieved and
  answered using the single-mode path"; "any identifier the Generation Orchestrator does
  not recognize fails with \<open>UnknownModelError\<close> before any external call is made".
  \<open>recognized\<close> is the orchestrator's model lookup.
\<close>

definition generateBulk ::
  "('m \<Rightarrow> bool) \<Rightarrow> ('d \<Rightarrow> 'r \<Rightarrow> 'm \<Rightarrow> pipeline_error + 'a) \<Rightarrow>
     'd \<Rightarrow> 'r list \<Rightarrow> 'm \<Rightarrow> int \<Rightarrow> pipeline_error + 'a row_result list" where
  "generateBulk recognized answer documentId rows modelId limit =
     (if \<not> recognized modelId then Inl UnknownModelError
      else Inr (map (attempt_row (\<lambda>row. answer documentId row modelId))
                  (rows_to_process limit rows)))"

text \<open>
  A sample bulk run used to exercise the theorems below: five rows, two recognized
  models, and a single-mode path that fails with \<open>ModelError\<close> on the third row.
\<close>

definition sample_rows :: "(string \<times> string) list" where
  "sample_rows =
     [(''Reading clubs'', ''Weekly reading sessions''),
      (''School meals'', ''Daily lunch for pupils''),
      (''Teacher training'', ''In-service courses''),
      (''Textbooks'', ''One book per pupil''),
      (''Scholarships'', ''Grants for girls'')]"

definition sample_recognized :: "string \<Rightarrow> bool" where
  "sample_recognized m \<longleftrightarrow> m = ''gpt-4.5'' \<or> m = ''gpt-4o''"

definition sample_answer :: "string \<Rightarrow> string \<times> string \<Rightarrow> string \<Rightarrow> pipeline_error + string" where
  "sample_answer documentId row modelId =
     (if fst row = ''Teacher training'' then Inl ModelError else Inr (fst row))"

section \<open>Properties of the forms\<close>

lemma dropWhile_all: "(\<forall>x \<in> set (dropWhile P xs). P x) \<longleftrightarrow> (\<forall>x \<in> set xs. P x)"
  by (induction xs) auto

text \<open>\<open>s.trim()\<close> is empty exactly when \<open>s\<close> holds white space only.\<close>

lemma trim_empty_iff: "trim s = [] \<longleftrightarrow> (\<forall>c \<in> set s. is_white_space c)"
  by (simp add: trim_def dropWhile_all)

text \<open>
  C10. \<open>SingleEntryForm.handleGenerate\<close> calls \<open>onGenerate\<close> if and only if
  \<open>activity.trim()\<close> is non-empty, \<open>definition.trim()\<close> is non-empty and a file is
  selected. The three checks run in that order, each failing check gives its own single
  alert and nothing else, so one invocation shows at most one alert; the call passes the
  current activity, definition, file and selected model unchanged (untrimmed).
\<close>

theorem single_handleGenerate_guard:
  "((\<exists>e \<in> set (single_handleGenerate st). is_single_call e) \<longleftrightarrow>
      trim (activity st) \<noteq> [] \<and> trim (definition_text st) \<noteq> [] \<and> form_file st \<noteq> None)
   \<and> length (filter is_single_alert (single_handleGenerate st)) \<le> 1
   \<and> (trim (activity st) = [] \<longrightarrow>
        single_handleGenerate st = [SingleAlert ''Please enter an activity name''])
   \<and> (trim (activity st) \<noteq> [] \<and> trim (definition_text st) = [] \<longrightarrow>
        single_handleGenerate st = [SingleAlert ''Please enter a definition''])
   \<and> (trim (activity st) \<noteq> [] \<and> trim (definition_text st) \<noteq> [] \<and> form_file st = None \<longrightarrow>
        single_handleGenerate st = [SingleAlert ''Please upload a PDF file''])
   \<and> (trim (activity st) \<noteq> [] \<and> trim (definition_text st) \<noteq> [] \<and> form_file st \<noteq> None \<longrightarrow>
        single_handleGenerate st =
          [SingleOnGenerate (activity st) (definition_text st) (form_file st)
             (single_selectedModel st)])"
  by (simp add: single_handleGenerate_def)

text \<open>
  C10 at concrete forms: a complete form calls \<open>onGenerate\<close> with its fields; a blank
  activity, a blank definition and a missing file each give their own alert.
\<close>

theorem single_handleGenerate_guard_witness:
  "single_handleGenerate
     \<lparr>activity = js ''Reading clubs'', definition_text = js '' weekly sessions '',
      form_file = Some \<lparr>file_name = js ''pad.pdf'', file_size = 2048\<rparr>,
      single_selectedModel = js ''gpt-4.5''\<rparr>
   = [SingleOnGenerate (js ''Reading clubs'') (js '' weekly sessions '')
        (Some \<lparr>file_name = js ''pad.pdf'', file_size = 2048\<rparr>) (js ''gpt-4.5'')]
   \<and> single_handleGenerate
     \<lparr>activity = js ''   '', definition_text = js ''weekly sessions'',
      form_file = Some \<lparr>file_name = js ''pad.pdf'', file_size = 2048\<rparr>,
      single_selectedModel = js ''gpt-4.5''\<rparr>
   = [SingleAlert ''Please enter an activity name'']
   \<and> single_handleGenerate
     \<lparr>activity = js ''Reading clubs'', definition_text = [],
      form_file = None, single_selectedModel = js ''gpt-4.5''\<rparr>
   = [SingleAlert ''Please enter a definition'']
   \<and> single_handleGenerate
     \<lparr>activity = js ''Reading clubs'', definition_text = js ''weekly sessions'',
      form_file = None, single_selectedModel = js ''gpt-4.5''\<rparr>
   = [SingleAlert ''Please upload a PDF file'']"
  using
    single_handleGenerate_guard
      [of "\<lparr>activity = js ''Reading clubs'', definition_text = js '' weekly sessions '',
            form_file = Some \<lparr>file_name = js ''pad.pdf'', file_size = 2048\<rparr>,
            single_selectedModel = js ''gpt-4.5''\<rparr>"]
    single_handleGenerate_guard
      [of "\<lparr>activity = js ''   '', definition_text = js ''weekly sessions'',
            form_file = Some \<lparr>file_name = js ''pad.pdf'', file_size = 2048\<rparr>,
            single_selectedModel = js ''gpt-4.5''\<rparr>"]
    single_handleGenerate_guard
      [of "\<lparr>activity = js ''Reading clubs'', definition_text = [],
            form_file = None, single_selectedModel = js ''gpt-4.5''\<rparr>"]
    single_handleGenerate_guard
      [of "\<lparr>activity = js ''Reading clubs'', definition_text = js ''weekly sessions'',
            form_file = None, single_selectedModel = js ''gpt-4.5''\<rparr>"]
  by (simp add: trim_empty_iff js_def is_white_space_def)

text \<open>
  C8. \<open>BulkGenerationForm.handleGenerate\<close> calls \<open>onGenerate\<close> if and only if both
  the spreadsheet file and the PDF file are selected. A missing spreadsheet gives the
  Excel alert and nothing else, a missing PDF (with a spreadsheet) the PDF alert and
  nothing else; the call passes the current \<open>excelFile\<close>, \<open>pdfFile\<close>,
  \<open>queryLimit\<close> and \<open>selectedModel\<close> unchanged.
\<close>

theorem handleGenerate_guard:
  "((\<exists>e \<in> set (handleGenerate st). is_call e) \<longleftrightarrow>
      excelFile st \<noteq> None \<and> pdfFile st \<noteq> None)
   \<and> (excelFile st = None \<longrightarrow>
        handleGenerate st = [Alert ''Please upload an Excel file''])
   \<and> (excelFile st \<noteq> None \<and> pdfFile st = None \<longrightarrow>
        handleGenerate st = [Alert ''Please upload a PDF file''])
   \<and> (\<forall>x p. excelFile st = Some x \<and> pdfFile st = Some p \<longrightarrow>
        handleGenerate st = [OnGenerate x (Some p) (queryLimit st) (selectedModel st)])"
  by (auto simp: handleGenerate_def split: option.splits)

text \<open>
  C8 at concrete forms: both files selected, no spreadsheet, and a spreadsheet without
  a PDF.
\<close>

theorem handleGenerate_guard_witness:
  "handleGenerate
     \<lparr>excelFile = Some \<lparr>file_name = js ''rows.xlsx'', file_size = 4096\<rparr>,
      pdfFile = Some \<lparr>file_name = js ''pad.pdf'', file_size = 2048\<rparr>,
      queryLimit = Num 3, selectedModel = js ''gpt-4.5''\<rparr>
   = [OnGenerate \<lparr>file_name = js ''rows.xlsx'', file_size = 4096\<rparr>
        (Some \<lparr>file_name = js ''pad.pdf'', file_size = 2048\<rparr>) (Num 3) (js ''gpt-4.5'')]
   \<and> handleGenerate
     \<lparr>excelFile = None,
      pdfFile = Some \<lparr>file_name = js ''pad.pdf'', file_size = 2048\<rparr>,
      queryLimit = Num 3, selectedModel = js ''gpt-4.5''\<rparr>
   = [Alert ''Please upload an Excel file'']
   \<and> handleGenerate
     \<lparr>excelFile = Some \<lparr>file_name = js ''rows.xlsx'', file_size = 4096\<rparr>,
      pdfFile = None, queryLimit = Num 3, selectedModel = js ''gpt-4.5''\<rparr>
   = [Alert ''Please upload a PDF file'']"
  using
    handleGenerate_guard
      [of "\<lparr>excelFile = Some \<lparr>file_name = js ''rows.xlsx'', file_size = 4096\<rparr>,
            pdfFile = Some \<lparr>file_name = js ''pad.pdf'', file_size = 2048\<rparr>,
            queryLimit = Num 3, selectedModel = js ''gpt-4.5''\<rparr>"]
    handleGenerate_guard
      [of "\<lparr>excelFile = None,
            pdfFile = Some \<lparr>file_name = js ''pad.pdf'', file_size = 2048\<rparr>,
            queryLimit = Num 3, selectedModel = js ''gpt-4.5''\<rparr>"]
    handleGenerate_guard
      [of "\<lparr>excelFile = Some \<lparr>file_name = js ''rows.xlsx'', file_size = 4096\<rparr>,
            pdfFile = None, queryLimit = Num 3, selectedModel = js ''gpt-4.5''\<rparr>"]
  by simp

section \<open>Properties of \<open>parseInt\<close> and of the query limit\<close>

lemma excess_bits_upper: "n div 2 ^ excess_bits n < 2 ^ 53"
proof (induction n rule: excess_bits.induct)
  case (1 n)
  show ?case
  proof (cases "n < 2 ^ 53")
    case True
    then show ?thesis by (simp add: excess_bits.simps [of n])
  next
    case False
    with 1 have "(n div 2) div 2 ^ excess_bits (n div 2) < 2 ^ 53" by simp
    with False show ?thesis
      by (simp add: excess_bits.simps [of n] div_mult2_eq)
  qed
qed

lemma excess_bits_lower: "0 < excess_bits n \<Longrightarrow> 2 ^ 52 \<le> n div 2 ^ excess_bits n"
proof (induction n rule: excess_bits.induct)
  case (1 n)
  show ?case
  proof (cases "n < 2 ^ 53")
    case True
    with 1(2) show ?thesis by (simp add: excess_bits.simps [of n])
  next
    case False
    show ?thesis
    proof (cases "excess_bits (n div 2) = 0")
      case True
      from False have "2 ^ 52 \<le> n div 2" by simp
      with True False show ?thesis by (simp add: excess_bits.simps [of n])
    next
      case False': False
      with 1(1) False have "2 ^ 52 \<le> (n div 2) div 2 ^ excess_bits (n div 2)" by simp
      with False show ?thesis by (simp add: excess_bits.simps [of n] div_mult2_eq)
    qed
  qed
qed

lemma to_double_None_iff: "to_double n = None \<longleftrightarrow> 2 ^ 1024 \<le> n + 2 ^ 970"
proof -
  define e where "e = excess_bits n"
  define p :: nat where "p = 2 ^ e"
  define q where "q = n div p"
  define r where "r = n mod p"
  define q' where "q' = (if p < 2 * r \<or> (2 * r = p \<and> odd q) then q + 1 else q)"
  have n_eq: "n = q * p + r" by (simp add: q_def r_def)
  have r_lt: "r < p" by (simp add: r_def p_def)
  have q_lt: "q < 2 ^ 53" unfolding q_def p_def e_def by (rule excess_bits_upper)
  have q_ge: "0 < e \<Longrightarrow> 2 ^ 52 \<le> q" unfolding q_def p_def e_def by (rule excess_bits_lower)
  have q'_le: "q' \<le> 2 ^ 53" using q_lt by (simp add: q'_def)
  have q'_ge: "q \<le> q'" by (simp add: q'_def)
  have td: "to_double n = None \<longleftrightarrow> 2 ^ 1024 \<le> q' * p"
    unfolding to_double_def Let_def q'_def q_def r_def p_def e_def by simp
  consider "e \<le> 970" | "e = 971" | "972 \<le> e" by linarith
  then show ?thesis
  proof cases
    case 1
    then have p_le: "p \<le> 2 ^ 970" unfolding p_def by (intro power_increasing) simp_all
    have "q' * p \<le> 2 ^ 53 * 2 ^ 970" using q'_le p_le by (rule mult_mono) simp_all
    then have a: "\<not> 2 ^ 1024 \<le> q' * p" by simp
    have "n < (q + 1) * p" using n_eq r_lt by simp
    also have "\<dots> \<le> 2 ^ 53 * 2 ^ 970" using q_lt p_le by (intro mult_mono) simp_all
    finally have "\<not> 2 ^ 1024 \<le> n + 2 ^ 970" by simp
    with a td show ?thesis by simp
  next
    case 2
    then have p: "p = 2 ^ 971" by (simp add: p_def)
    from 2 q_ge have q52: "2 ^ 52 \<le> q" by simp
    show ?thesis
    proof (cases "p < 2 * r \<or> (2 * r = p \<and> odd q)")
      case True
      then have q': "q' = q + 1" by (simp add: q'_def)
      show ?thesis
      proof (cases "q = 2 ^ 53 - 1")
        case q: True
        from True have "2 ^ 970 \<le> r" unfolding p by auto
        with q n_eq show ?thesis unfolding td q' p by simp
      next
        case False
        with q_lt have "q + 1 < 2 ^ 53" by simp
        then have "q + 1 \<le> 2 ^ 53 - 1" by simp
        then have "(q + 1) * p \<le> (2 ^ 53 - 1) * p" by (rule mult_right_mono) simp
        moreover have "n < (q + 1) * p" using n_eq r_lt by simp
        ultimately show ?thesis unfolding td q' p by simp
      qed
    next
      case False
      then have q': "q' = q" by (simp add: q'_def)
      from q_lt have "q \<le> 2 ^ 53 - 1" by simp
      then have a: "q * p \<le> (2 ^ 53 - 1) * p" by (rule mult_right_mono) simp
      show ?thesis
      proof (cases "q = 2 ^ 53 - 1")
        case q: True
        then have "odd q" by simp
        with False have "2 * r < p" by auto
        with q n_eq a show ?thesis unfolding td q' p by simp
      next
        case F: False
        with q_lt have "q + 1 \<le> 2 ^ 53 - 1" by simp
        then have "(q + 1) * p \<le> (2 ^ 53 - 1) * p" by (rule mult_right_mono) simp
        moreover have "n < (q + 1) * p" using n_eq r_lt by simp
        ultimately show ?thesis using a unfolding td q' p by simp
      qed
    qed
  next
    case 3
    then have "(2::nat) ^ 972 \<le> p" unfolding p_def by (intro power_increasing) simp_all
    moreover from 3 q_ge have "2 ^ 52 \<le> q" by simp
    ultimately have "2 ^ 52 * 2 ^ 972 \<le> q * p" by (intro mult_mono) simp_all
    then have a: "2 ^ 1024 \<le> q * p" by simp
    have b: "q * p \<le> q' * p" using q'_ge by (rule mult_right_mono) simp
    have c: "q * p \<le> n" using n_eq by simp
    from a b have "2 ^ 1024 \<le> q' * p" by (rule order_trans)
    moreover from a c have "2 ^ 1024 \<le> n + 2 ^ 970" by linarith
    ultimately show ?thesis unfolding td by blast
  qed
qed

lemma radix_digits_zeros: "radix_digits 10 (replicate n 0x30) = replicate n 0"
  by (induction n) (simp_all add: digit_value_def)

lemma foldl_zeros: "foldl (\<lambda>a d. a * R + d) a (replicate n 0) = a * (R::nat) ^ n"
  by (induction n arbitrary: a) (simp_all add: ac_simps)

lemma math_int_zeros: "math_int R (d # replicate n 0) = d * R ^ n"
  by (simp add: math_int_def foldl_zeros)

lemma strip_prefix_no_zero: "c \<noteq> 0x30 \<Longrightarrow> strip_prefix (c # cs) = (10, c # cs)"
  by (cases cs) (simp_all add: strip_prefix_def)

lemma digit_value_10_None: "\<not> (0x30 \<le> c \<and> c \<le> 0x39) \<Longrightarrow> digit_value 10 c = None"
  by (auto simp: digit_value_def)

lemma scan_big: "scan_int (js (CHR ''2'' # replicate 308 CHR ''0'')) = (False, 10, 2 # replicate 308 0)"
  by (simp add: scan_int_def js_def is_white_space_def strip_sign_def strip_prefix_no_zero
      digit_value_def radix_digits_zeros)

lemma numeric_start_NaN:
  assumes "\<not> numeric_start s"
  shows "parseInt s = NaN"
proof -
  obtain neg S1 where ss: "strip_sign (dropWhile is_white_space s) = (neg, S1)"
    by (cases "strip_sign (dropWhile is_white_space s)")
  have "snd (strip_prefix S1) = S1 \<and> fst (strip_prefix S1) = 10 \<and> radix_digits 10 S1 = []"
  proof (cases S1)
    case Nil
    then show ?thesis by (simp add: strip_prefix_def)
  next
    case (Cons c cs)
    with assms ss have nd: "\<not> (0x30 \<le> c \<and> c \<le> 0x39)"
      by (simp add: numeric_start_def)
    then have "c \<noteq> 0x30" by auto
    with Cons nd show ?thesis
      by (simp add: strip_prefix_no_zero digit_value_10_None)
  qed
  then show ?thesis
    by (simp add: parseInt_def scan_int_def ss split_beta)
qed

lemma parseInt_infinite_iff:
  "parseInt s = PosInfinity \<or> parseInt s = NegInfinity \<longleftrightarrow> overflows s"
proof -
  obtain neg R Z where sc: "scan_int s = (neg, R, Z)"
    by (cases "scan_int s")
  show ?thesis
  proof (cases "Z = []")
    case True
    with sc show ?thesis by (simp add: parseInt_def overflows_def)
  next
    case False
    show ?thesis
    proof (cases "to_double (math_int R Z)")
      case None
      with False sc to_double_None_iff [of "math_int R Z"] show ?thesis
        by (simp add: parseInt_def overflows_def)
    next
      case (Some v)
      with False sc to_double_None_iff [of "math_int R Z"] show ?thesis
        by (simp add: parseInt_def overflows_def)
    qed
  qed
qed

lemma to_double_overflow: "2 ^ 1024 \<le> n + 2 ^ 970 \<Longrightarrow> to_double n = None"
  by (simp add: to_double_None_iff)

lemma bulk_run_snoc: "bulk_run (evs @ [e]) = bulk_step (bulk_run evs) e"
  by (simp add: bulk_run_def)

lemma js_or_not_NaN: "js_or a (Num 0) \<noteq> NaN"
  by (cases a) (simp_all add: js_or_def)

lemma js_or_integer_iff: "is_integer (js_or a (Num 0)) \<longleftrightarrow> a \<noteq> PosInfinity \<and> a \<noteq> NegInfinity"
  by (cases a) (simp_all add: js_or_def)

lemma js_or_value: "js_or a (Num 0) = (if a = NaN \<or> a = Num 0 then Num 0 else a)"
  by (cases a) (simp_all add: js_or_def)

lemma onChange_integer_iff:
  "is_integer (queryLimit (queryLimit_onChange s st)) \<longleftrightarrow> \<not> overflows s"
  using parseInt_infinite_iff [of s]
  by (auto simp: queryLimit_onChange_def js_or_integer_iff)

lemma queryLimit_handlers:
  "queryLimit (handleExcelFileChange fs st) = queryLimit st"
  "queryLimit (handlePdfFileChange fs st) = queryLimit st"
  "queryLimit (handleModelChange m st) = queryLimit st"
  "queryLimit (queryLimit_onChange v st) = js_or (parseInt v) (Num 0)"
  by (simp_all add: handleExcelFileChange_def handlePdfFileChange_def handleModelChange_def
      queryLimit_onChange_def split: option.splits list.splits)

lemma bulk_run_not_NaN: "queryLimit (bulk_run evs) \<noteq> NaN"
proof (induction evs rule: rev_induct)
  case Nil
  show ?case by (simp add: bulk_run_def bulk_initial_def)
next
  case (snoc e evs)
  then show ?case
    by (cases e) (simp_all add: bulk_run_snoc queryLimit_handlers js_or_not_NaN)
qed

lemma bulk_run_integer:
  "(\<forall>v. QueryLimitChange v \<in> set evs \<longrightarrow> \<not> overflows v) \<Longrightarrow> is_integer (queryLimit (bulk_run evs))"
proof (induction evs rule: rev_induct)
  case Nil
  show ?case by (simp add: bulk_run_def bulk_initial_def)
next
  case (snoc e evs)
  from snoc have IH: "is_integer (queryLimit (bulk_run evs))" by simp
  show ?case
  proof (cases e)
    case (QueryLimitChange v)
    with snoc.prems have "\<not> overflows v" by simp
    with parseInt_infinite_iff [of v] QueryLimitChange show ?thesis
      by (simp add: bulk_run_snoc queryLimit_handlers js_or_integer_iff)
  qed (use IH in \<open>simp_all add: bulk_run_snoc queryLimit_handlers\<close>)
qed

lemma parseInt_minus_three: "parseInt (js ''-3'') = Num (- 3)"
  by (simp add: parseInt_def scan_int_def js_def is_white_space_def strip_sign_def strip_prefix_def
      digit_value_def math_int_def to_double_def excess_bits.simps)

text \<open>
  C9, as the code has it. The \<open>queryLimit\<close> state of BulkGenerationForm is never
  \<open>NaN\<close>: for every input string \<open>s\<close> the change handler stores \<open>parseInt(s)\<close> when
  that is a nonzero number and \<open>0\<close> otherwise, so empty input and input that does not
  start (after white space and a sign) with a digit become \<open>0\<close>, and a negative value
  such as \<open>-3\<close> is stored as it is. The stored value is an integer exactly when the
  digits do not overflow a double; digits that do are stored as an infinity. The same
  holds of the state after any sequence of events, from the default \<open>10\<close> on.
\<close>

theorem queryLimit_onChange_stored:
  "queryLimit (queryLimit_onChange s st) \<noteq> NaN
   \<and> queryLimit (queryLimit_onChange s st) =
       (if parseInt s = NaN \<or> parseInt s = Num 0 then Num 0 else parseInt s)
   \<and> (is_integer (queryLimit (queryLimit_onChange s st)) \<longleftrightarrow> \<not> overflows s)
   \<and> (\<not> numeric_start s \<longrightarrow> queryLimit (queryLimit_onChange s st) = Num 0)
   \<and> queryLimit (queryLimit_onChange (js ''-3'') st) = Num (- 3)
   \<and> queryLimit (bulk_run evs) \<noteq> NaN
   \<and> ((\<forall>v. QueryLimitChange v \<in> set evs \<longrightarrow> \<not> overflows v) \<longrightarrow>
        is_integer (queryLimit (bulk_run evs)))"
proof -
  have "queryLimit (queryLimit_onChange s st) \<noteq> NaN"
    by (simp add: queryLimit_onChange_def js_or_not_NaN)
  moreover have "queryLimit (queryLimit_onChange s st) =
       (if parseInt s = NaN \<or> parseInt s = Num 0 then Num 0 else parseInt s)"
    by (simp add: queryLimit_onChange_def js_or_value)
  moreover have "\<not> numeric_start s \<longrightarrow> queryLimit (queryLimit_onChange s st) = Num 0"
    by (simp add: queryLimit_onChange_def js_or_value numeric_start_NaN)
  moreover have "queryLimit (queryLimit_onChange (js ''-3'') st) = Num (- 3)"
    by (simp add: queryLimit_onChange_def js_or_value parseInt_minus_three)
  ultimately show ?thesis
    using onChange_integer_iff [of s st] bulk_run_not_NaN [of evs] bulk_run_integer [of evs]
    by blast
qed

text \<open>
  C9 at concrete inputs: the empty string and \<open>abc\<close> are stored as \<open>0\<close>, \<open>-3\<close> as
  \<open>-3\<close>, and after typing \<open>12\<close> the state is an integer.
\<close>

theorem queryLimit_onChange_stored_witness:
  "queryLimit (queryLimit_onChange [] bulk_initial) = Num 0
   \<and> queryLimit (queryLimit_onChange (js ''abc'') bulk_initial) = Num 0
   \<and> queryLimit (queryLimit_onChange (js ''-3'') bulk_initial) = Num (- 3)
   \<and> is_integer (queryLimit (bulk_run [QueryLimitChange (js ''12''), GenerateClick]))"
proof -
  note empty = queryLimit_onChange_stored
    [of "[]" bulk_initial "[QueryLimitChange (js ''12''), GenerateClick]"]
  note abc = queryLimit_onChange_stored [of "js ''abc''" bulk_initial "[]"]
  have n1: "\<not> numeric_start []"
    by (simp add: numeric_start_def strip_sign_def)
  have n2: "\<not> numeric_start (js ''abc'')"
    by (simp add: numeric_start_def strip_sign_def js_def is_white_space_def)
  have "\<not> overflows (js ''12'')"
    by (simp add: overflows_def scan_int_def js_def is_white_space_def strip_sign_def
        strip_prefix_def digit_value_def math_int_def)
  then have o: "\<forall>v. QueryLimitChange v \<in> set [QueryLimitChange (js ''12''), GenerateClick]
      \<longrightarrow> \<not> overflows v"
    by simp
  from empty n1 have "queryLimit (queryLimit_onChange [] bulk_initial) = Num 0" by blast
  moreover from abc n2 have "queryLimit (queryLimit_onChange (js ''abc'') bulk_initial) = Num 0"
    by blast
  moreover from abc have "queryLimit (queryLimit_onChange (js ''-3'') bulk_initial) = Num (- 3)"
    by blast
  moreover from empty o
  have "is_integer (queryLimit (bulk_run [QueryLimitChange (js ''12''), GenerateClick]))"
    by blast
  ultimately show ?thesis by blast
qed

text \<open>
  C9 as stated fails: a \<open>2\<close> followed by 308 zeros is \<open>2 * 10^308\<close>, more than any
  finite double, so \<open>parseInt\<close> returns \<open>Infinity\<close>, which is truthy and is stored;
  the state is then no integer.
\<close>

theorem queryLimit_not_integer_counterexample:
  "queryLimit (queryLimit_onChange (js (CHR ''2'' # replicate 308 CHR ''0'')) bulk_initial) = PosInfinity
   \<and> \<not> is_integer (queryLimit (queryLimit_onChange (js (CHR ''2'' # replicate 308 CHR ''0'')) bulk_initial))"
  by (simp add: queryLimit_onChange_def js_or_def parseInt_def scan_big math_int_zeros to_double_overflow)

section \<open>Properties of the bulk run\<close>

lemma rows_to_process_positive:
  "0 < limit \<Longrightarrow> rows_to_process limit rows = take (min (length rows) (nat limit)) rows"
proof -
  assume "0 < limit"
  then have "nat (min (int (length rows)) limit) = min (length rows) (nat limit)"
    by (simp add: min_def) linarith
  with \<open>0 < limit\<close> show ?thesis by (simp add: rows_to_process_def)
qed

lemma rows_to_process_zero: "rows_to_process 0 rows = rows"
  by (simp add: rows_to_process_def)

lemma generateBulk_recognized:
  "recognized modelId \<Longrightarrow>
     generateBulk recognized answer documentId rows modelId limit =
       Inr (map (attempt_row (\<lambda>row. answer documentId row modelId))
              (rows_to_process limit rows))"
  by (simp add: generateBulk_def)

text \<open>
  C1. In a bulk run with a recognized model, the rows processed are the first
  \<open>min(len(rows), queryLimit)\<close> rows, in order, when \<open>queryLimit > 0\<close>, and all rows
  when \<open>queryLimit = 0\<close>; the results are the attempts of exactly these rows, in the
  same order. In particular, over 5 rows a limit of 3 gives the results of the first 3
  rows and a limit of 0 gives 5 results.
\<close>

theorem generateBulk_query_limit:
  assumes "recognized modelId"
  shows
    "(0 < limit \<longrightarrow>
        rows_to_process limit rows = take (min (length rows) (nat limit)) rows
        \<and> length (rows_to_process limit rows) = min (length rows) (nat limit))
     \<and> rows_to_process 0 rows = rows
     \<and> generateBulk recognized answer documentId rows modelId limit =
         Inr (map (attempt_row (\<lambda>row. answer documentId row modelId))
                (rows_to_process limit rows))
     \<and> (length rows = 5 \<longrightarrow>
          generateBulk recognized answer documentId rows modelId 3 =
            Inr (map (attempt_row (\<lambda>row. answer documentId row modelId)) (take 3 rows))
          \<and> length (map (attempt_row (\<lambda>row. answer documentId row modelId)) (take 3 rows)) = 3
          \<and> generateBulk recognized answer documentId rows modelId 0 =
            Inr (map (attempt_row (\<lambda>row. answer documentId row modelId)) rows)
          \<and> length (map (attempt_row (\<lambda>row. answer documentId row modelId)) rows) = 5)"
  using assms
  by (simp add: generateBulk_recognized rows_to_process_positive rows_to_process_zero)

text \<open>C1 on the sample run: limit 3 gives the first three rows' results, limit 0 all five.\<close>

theorem generateBulk_query_limit_witness:
  "sample_recognized ''gpt-4.5''
   \<and> length sample_rows = 5
   \<and> generateBulk sample_recognized (\<lambda>d row m. Inr (fst row)) ''doc-1'' sample_rows ''gpt-4.5'' 3 =
       Inr [Answered ''Reading clubs'', Answered ''School meals'', Answered ''Teacher training'']
   \<and> generateBulk sample_recognized (\<lambda>d row m. Inr (fst row)) ''doc-1'' sample_rows ''gpt-4.5'' 0 =
       Inr [Answered ''Reading clubs'', Answered ''School meals'', Answered ''Teacher training'',
            Answered ''Textbooks'', Answered ''Scholarships'']"
  using generateBulk_query_limit
    [where recognized = sample_recognized and modelId = "''gpt-4.5''" and rows = sample_rows
       and answer = "\<lambda>d row m. Inr (fst row)" and documentId = "''doc-1''" and limit = 3]
  by (simp add: sample_recognized_def sample_rows_def attempt_row_def)

text \<open>
  C2. A bulk run with a recognized model returns one result per attempted row, in row
  order, each the row's answer or the error captured for that row; no row's failure
  removes or changes another row's result. In particular, when all 5 rows are
  attempted and the third fails with \<open>ModelError\<close> while the others succeed, there are
  5 results, the third failed and the other four answered.
\<close>

theorem generateBulk_partial_failure:
  assumes "recognized modelId"
  shows
    "\<exists>rs. generateBulk recognized answer documentId rows modelId limit = Inr rs
        \<and> length rs = length (rows_to_process limit rows)
        \<and> (\<forall>i < length rs.
              rs ! i = (case answer documentId (rows_to_process limit rows ! i) modelId of
                          Inl e \<Rightarrow> RowFailed e
                        | Inr a \<Rightarrow> Answered a))
        \<and> (length rows = 5 \<and> (limit = 0 \<or> 5 \<le> limit)
            \<and> answer documentId (rows ! 2) modelId = Inl ModelError
            \<and> (\<forall>i < 5. i \<noteq> 2 \<longrightarrow> (\<exists>a. answer documentId (rows ! i) modelId = Inr a))
            \<longrightarrow> length rs = 5 \<and> rs ! 2 = RowFailed ModelError
                \<and> (\<forall>i < 5. i \<noteq> 2 \<longrightarrow> is_answered (rs ! i)))"
proof -
  let ?f = "attempt_row (\<lambda>row. answer documentId row modelId)"
  let ?rs = "map ?f (rows_to_process limit rows)"
  have g: "generateBulk recognized answer documentId rows modelId limit = Inr ?rs"
    using assms by (rule generateBulk_recognized)
  have nth: "\<forall>i < length ?rs.
      ?rs ! i = (case answer documentId (rows_to_process limit rows ! i) modelId of
                   Inl e \<Rightarrow> RowFailed e | Inr a \<Rightarrow> Answered a)"
    by (simp add: attempt_row_def)
  have len: "length ?rs = length (rows_to_process limit rows)" by simp
  have five: "length rows = 5 \<and> (limit = 0 \<or> 5 \<le> limit)
            \<and> answer documentId (rows ! 2) modelId = Inl ModelError
            \<and> (\<forall>i < 5. i \<noteq> 2 \<longrightarrow> (\<exists>a. answer documentId (rows ! i) modelId = Inr a))
            \<longrightarrow> length ?rs = 5 \<and> ?rs ! 2 = RowFailed ModelError
                \<and> (\<forall>i < 5. i \<noteq> 2 \<longrightarrow> is_answered (?rs ! i))"
  proof (intro impI, elim conjE)
    assume len: "length rows = 5" and lim: "limit = 0 \<or> 5 \<le> limit"
      and bad: "answer documentId (rows ! 2) modelId = Inl ModelError"
      and good: "\<forall>i < 5. i \<noteq> 2 \<longrightarrow> (\<exists>a. answer documentId (rows ! i) modelId = Inr a)"
    from len lim have all: "rows_to_process limit rows = rows"
      by (auto simp: rows_to_process_def)
    have "is_answered (?rs ! i)" if "i < 5" "i \<noteq> 2" for i
    proof -
      from good that obtain a where "answer documentId (rows ! i) modelId = Inr a" by blast
      with that len show ?thesis by (simp add: all attempt_row_def)
    qed
    with len bad show "length ?rs = 5 \<and> ?rs ! 2 = RowFailed ModelError
                \<and> (\<forall>i < 5. i \<noteq> 2 \<longrightarrow> is_answered (?rs ! i))"
      by (simp add: all attempt_row_def)
  qed
  from g len nth five show ?thesis by blast
qed

text \<open>C2 on the sample run: the third of five rows fails, the other four are answered.\<close>

theorem generateBulk_partial_failure_witness:
  "sample_recognized ''gpt-4.5''
   \<and> sample_answer ''doc-1'' (sample_rows ! 2) ''gpt-4.5'' = Inl ModelError
   \<and> generateBulk sample_recognized sample_answer ''doc-1'' sample_rows ''gpt-4.5'' 0 =
       Inr [Answered ''Reading clubs'', Answered ''School meals'', RowFailed ModelError,
            Answered ''Textbooks'', Answered ''Scholarships'']"
  using generateBulk_partial_failure
    [where recognized = sample_recognized and modelId = "''gpt-4.5''" and rows = sample_rows
       and answer = sample_answer and documentId = "''doc-1''" and limit = 0]
  by (simp add: generateBulk_def rows_to_process_def sample_recognized_def sample_rows_def
      sample_answer_def attempt_row_def)

end
